theory Spec2Isabelle
  imports Main "HOL-Library.Word"
begin

unbundle bit_operations_syntax

section \<open>The NVMe shim (src/ffi/c/nvme_shim.c) and the system calls it makes\<close>

text \<open>
  The shim is three C functions, each of which validates its arguments, opens the
  device, makes one system call on it (an admin ioctl, a pread or a pwrite), closes
  the descriptor and turns the outcome into 0 or a negative errno.

  The model targets the LP64 Linux ABI the file is written for (it includes
  \<^verbatim>\<open>linux/nvme_ioctl.h\<close>): \<^verbatim>\<open>uint64_t\<close> and \<^verbatim>\<open>size_t\<close> are 64-bit words,
  \<^verbatim>\<open>off_t\<close> and \<^verbatim>\<open>ssize_t\<close> are signed 64-bit, pointers are 64-bit addresses with
  0 for NULL. \<^verbatim>\<open>int\<close> results (descriptors, statuses, errno) are small and are
  modelled as \<open>int\<close>.
\<close>

subsection \<open>Data\<close>

type_synonym byte = "8 word"
type_synonym ptr = "64 word"

text \<open>A \<^verbatim>\<open>const char *\<close> argument: NULL (\<open>None\<close>) or the string it points to.\<close>

type_synonym cpath = "string option"

text \<open>The errno values of Linux (\<^verbatim>\<open>asm-generic/errno-base.h\<close>) that the shim names or
  that the device model below reports.\<close>

definition ENOENT :: int where "ENOENT = 2"
definition EIO :: int where "EIO = 5"
definition EBADF :: int where "EBADF = 9"
definition EACCES :: int where "EACCES = 13"
definition EFAULT :: int where "EFAULT = 14"
definition EINVAL :: int where "EINVAL = 22"
definition ENOTTY :: int where "ENOTTY = 25"
definition ENOSPC :: int where "ENOSPC = 28"
definition EROFS :: int where "EROFS = 30"

text \<open>The two access modes the shim passes to \<^verbatim>\<open>open\<close>.\<close>

datatype oflag = O_RDONLY | O_WRONLY

text \<open>
  \<^verbatim>\<open>struct nvme_admin_cmd\<close> of \<^verbatim>\<open>linux/nvme_ioctl.h\<close> (the header is not part of the
  repository; the field list is the kernel's \<^verbatim>\<open>struct nvme_passthru_cmd\<close>).
\<close>

record nvme_admin_cmd =
  opcode :: "8 word"
  flags :: "8 word"
  rsvd1 :: "16 word"
  nsid :: "32 word"
  cdw2 :: "32 word"
  cdw3 :: "32 word"
  metadata :: "64 word"
  addr :: "64 word"
  metadata_len :: "32 word"
  data_len :: "32 word"
  cdw10 :: "32 word"
  cdw11 :: "32 word"
  cdw12 :: "32 word"
  cdw13 :: "32 word"
  cdw14 :: "32 word"
  cdw15 :: "32 word"
  timeout_ms :: "32 word"
  result :: "32 word"

text \<open>
  \<^verbatim>\<open>sizeof(ochrance_smart_info_t)\<close>. The struct of nvme_shim.h has ten scalar fields of
  1, 2, 1, 1, 1, 8, 8, 8, 4 and 4 bytes and no packing attribute; with every scalar
  aligned to its size, as on x86-64 and aarch64, the compiler places them at offsets
  0, 2, 4, 5, 6, 8, 16, 24, 32, 36 and the size is 40.
\<close>

definition sizeof_smart_info :: nat where
  "sizeof_smart_info = 40"

subsection \<open>Caller memory\<close>

text \<open>The caller's address space is a flat array of bytes; addresses wrap at \<open>2^64\<close>.\<close>

type_synonym memory = "ptr \<Rightarrow> byte"

definition store :: "memory \<Rightarrow> ptr \<Rightarrow> byte list \<Rightarrow> memory" where
  "store m a xs = (\<lambda>p. if unat (p - a) < length xs then xs ! unat (p - a) else m p)"

definition load :: "memory \<Rightarrow> ptr \<Rightarrow> nat \<Rightarrow> byte list" where
  "load m a n = map (\<lambda>i. m (a + of_nat i)) [0..<n]"

subsection \<open>System calls\<close>

text \<open>
  What the kernel answers is a parameter of the model. A call either succeeds with a
  value or fails with an errno (\<open>Err e\<close>: the C function returns -1 and sets
  \<^verbatim>\<open>errno\<close> to \<open>e\<close>). The kernel has a state of its own (\<open>'s\<close>: devices, descriptor
  table), which every call may change.
  \<^item> \<open>k_open\<close>: the new descriptor.
  \<^item> \<open>k_pread\<close>: the bytes read at the offset (the kernel copies at most \<open>count\<close> of
    them to the buffer).
  \<^item> \<open>k_pwrite\<close>: given the bytes of the buffer, the number of bytes written.
  \<^item> \<open>k_admin\<close>: the \<^verbatim>\<open>NVME_IOCTL_ADMIN_CMD\<close> ioctl. The driver returns -1 with
    errno when it cannot carry the command out, and otherwise the completion status
    the controller reported: 0 when the command succeeded, a positive NVMe status
    code when the device failed it. With the status come the bytes the device
    transferred to \<open>addr\<close> (at most \<open>data_len\<close> of them are copied).
  \<^item> \<open>k_close\<close>: may itself fail and set errno.
\<close>

datatype 'a sysret = Ok 'a | Err int

record 's kernel =
  k_open :: "'s \<Rightarrow> cpath \<Rightarrow> oflag \<Rightarrow> nat sysret \<times> 's"
  k_pread :: "'s \<Rightarrow> int \<Rightarrow> nat \<Rightarrow> int \<Rightarrow> byte list sysret \<times> 's"
  k_pwrite :: "'s \<Rightarrow> int \<Rightarrow> byte list \<Rightarrow> int \<Rightarrow> nat sysret \<times> 's"
  k_admin :: "'s \<Rightarrow> int \<Rightarrow> nvme_admin_cmd \<Rightarrow> (nat \<times> byte list) sysret \<times> 's"
  k_close :: "'s \<Rightarrow> int \<Rightarrow> unit sysret \<times> 's"

text \<open>Every system call the shim makes is recorded, with its arguments, in order.\<close>

datatype syscall =
    SysOpen cpath oflag
  | SysPread int ptr nat int
  | SysPwrite int ptr nat int
  | SysIoctlAdmin int nvme_admin_cmd
  | SysClose int

text \<open>The state a call of the shim runs in: the kernel's state, the caller's memory,
  the C library's \<^verbatim>\<open>errno\<close> and the calls made so far.\<close>

record 's sys =
  kst :: 's
  umem :: memory
  errno :: int
  trace :: "syscall list"

text \<open>The largest transfer a \<^verbatim>\<open>ssize_t\<close> result can report.\<close>

definition SSIZE_MAX :: nat where
  "SSIZE_MAX = 2 ^ 63 - 1"

definition sys_open :: "'s kernel \<Rightarrow> cpath \<Rightarrow> oflag \<Rightarrow> 's sys \<Rightarrow> int \<times> 's sys" where
  "sys_open k pathname fl s =
     (case k_open k (kst s) pathname fl of
        (Ok fd, ks) \<Rightarrow>
          (int fd, s\<lparr>kst := ks, trace := trace s @ [SysOpen pathname fl]\<rparr>)
      | (Err e, ks) \<Rightarrow>
          (- 1, s\<lparr>kst := ks, errno := e, trace := trace s @ [SysOpen pathname fl]\<rparr>))"

definition sys_pread :: "'s kernel \<Rightarrow> int \<Rightarrow> ptr \<Rightarrow> nat \<Rightarrow> int \<Rightarrow> 's sys \<Rightarrow> int \<times> 's sys" where
  "sys_pread k fd buf count offset s =
     (case k_pread k (kst s) fd count offset of
        (Ok bytes, ks) \<Rightarrow>
          (let got = take (min count SSIZE_MAX) bytes
           in (int (length got),
               s\<lparr>kst := ks, umem := store (umem s) buf got,
                 trace := trace s @ [SysPread fd buf count offset]\<rparr>))
      | (Err e, ks) \<Rightarrow>
          (- 1, s\<lparr>kst := ks, errno := e,
                  trace := trace s @ [SysPread fd buf count offset]\<rparr>))"

definition sys_pwrite :: "'s kernel \<Rightarrow> int \<Rightarrow> ptr \<Rightarrow> nat \<Rightarrow> int \<Rightarrow> 's sys \<Rightarrow> int \<times> 's sys" where
  "sys_pwrite k fd buf count offset s =
     (case k_pwrite k (kst s) fd (load (umem s) buf count) offset of
        (Ok n, ks) \<Rightarrow>
          (int (min n (min count SSIZE_MAX)),
           s\<lparr>kst := ks, trace := trace s @ [SysPwrite fd buf count offset]\<rparr>)
      | (Err e, ks) \<Rightarrow>
          (- 1, s\<lparr>kst := ks, errno := e,
                  trace := trace s @ [SysPwrite fd buf count offset]\<rparr>))"

definition sys_ioctl_admin :: "'s kernel \<Rightarrow> int \<Rightarrow> nvme_admin_cmd \<Rightarrow> 's sys \<Rightarrow> int \<times> 's sys" where
  "sys_ioctl_admin k fd cmd s =
     (case k_admin k (kst s) fd cmd of
        (Ok (status, bytes), ks) \<Rightarrow>
          (int status,
           s\<lparr>kst := ks, umem := store (umem s) (addr cmd) (take (unat (data_len cmd)) bytes),
             trace := trace s @ [SysIoctlAdmin fd cmd]\<rparr>)
      | (Err e, ks) \<Rightarrow>
          (- 1, s\<lparr>kst := ks, errno := e, trace := trace s @ [SysIoctlAdmin fd cmd]\<rparr>))"

definition sys_close :: "'s kernel \<Rightarrow> int \<Rightarrow> 's sys \<Rightarrow> int \<times> 's sys" where
  "sys_close k fd s =
     (case k_close k (kst s) fd of
        (Ok _, ks) \<Rightarrow> (0, s\<lparr>kst := ks, trace := trace s @ [SysClose fd]\<rparr>)
      | (Err e, ks) \<Rightarrow> (- 1, s\<lparr>kst := ks, errno := e, trace := trace s @ [SysClose fd]\<rparr>))"

subsection \<open>The shim\<close>

text \<open>\<^verbatim>\<open>static int open_nvme(const char *device_path)\<close>: the descriptor, or a negative
  errno.\<close>

definition open_nvme :: "'s kernel \<Rightarrow> cpath \<Rightarrow> 's sys \<Rightarrow> int \<times> 's sys" where
  "open_nvme k device_path s =
     (if device_path = None then (- EINVAL, s)
      else
        let (fd, s1) = sys_open k device_path O_RDONLY s
        in if fd < 0 then (- errno s1, s1) else (fd, s1))"

text \<open>The Get Log Page command \<^verbatim>\<open>ochrance_nvme_read_smart\<close> builds: all fields zero
  (\<^verbatim>\<open>memset\<close>), then the five assignments. The right-hand side of \<^verbatim>\<open>cdw10\<close> is computed
  in \<^verbatim>\<open>size_t\<close> and truncated to the 32-bit field.\<close>

definition zero_cmd :: nvme_admin_cmd where
  "zero_cmd =
     \<lparr>opcode = 0, flags = 0, rsvd1 = 0, nsid = 0, cdw2 = 0, cdw3 = 0, metadata = 0,
      addr = 0, metadata_len = 0, data_len = 0, cdw10 = 0, cdw11 = 0, cdw12 = 0,
      cdw13 = 0, cdw14 = 0, cdw15 = 0, timeout_ms = 0, result = 0\<rparr>"

definition smart_cmd :: "ptr \<Rightarrow> nvme_admin_cmd" where
  "smart_cmd info =
     zero_cmd
       \<lparr>opcode := 0x02,
        nsid := 0xFFFFFFFF,
        addr := info,
        data_len := of_nat sizeof_smart_info,
        cdw10 := ucast ((0x02 :: 64 word)
                   OR push_bit 16 ((of_nat sizeof_smart_info div 4) - 1))\<rparr>"

definition ochrance_nvme_read_smart :: "'s kernel \<Rightarrow> cpath \<Rightarrow> ptr \<Rightarrow> 's sys \<Rightarrow> int \<times> 's sys" where
  "ochrance_nvme_read_smart k device_path info s =
     (if info = 0 then (- EINVAL, s)
      else
        let (fd, s1) = open_nvme k device_path s
        in if fd < 0 then (fd, s1)
           else
             let cmd = smart_cmd info;
                 (ret, s2) = sys_ioctl_admin k fd cmd s1;
                 (_, s3) = sys_close k fd s2
             in (if ret < 0 then - errno s3 else 0, s3))"

definition ochrance_nvme_read_block ::
    "'s kernel \<Rightarrow> cpath \<Rightarrow> 64 word \<Rightarrow> ptr \<Rightarrow> 64 word \<Rightarrow> 's sys \<Rightarrow> int \<times> 's sys" where
  "ochrance_nvme_read_block k device_path lba buffer block_size s =
     (if buffer = 0 \<or> block_size = 0 then (- EINVAL, s)
      else
        let (fd, s1) = sys_open k device_path O_RDONLY s
        in if fd < 0 then (- errno s1, s1)
           else
             let offset = sint (lba * block_size);
                 (n, s2) = sys_pread k fd buffer (unat block_size) offset s1;
                 (_, s3) = sys_close k fd s2
             in if n < 0 then (- errno s3, s3)
                else if (word_of_int n :: 64 word) \<noteq> block_size then (- EIO, s3)
                else (0, s3))"

definition ochrance_nvme_write_block ::
    "'s kernel \<Rightarrow> cpath \<Rightarrow> 64 word \<Rightarrow> ptr \<Rightarrow> 64 word \<Rightarrow> 's sys \<Rightarrow> int \<times> 's sys" where
  "ochrance_nvme_write_block k device_path lba buffer block_size s =
     (if buffer = 0 \<or> block_size = 0 then (- EINVAL, s)
      else
        let (fd, s1) = sys_open k device_path O_WRONLY s
        in if fd < 0 then (- errno s1, s1)
           else
             let offset = sint (lba * block_size);
                 (n, s2) = sys_pwrite k fd buffer (unat block_size) offset s1;
                 (_, s3) = sys_close k fd s2
             in if n < 0 then (- errno s3, s3)
                else if (word_of_int n :: 64 word) \<noteq> block_size then (- EIO, s3)
                else (0, s3))"

section \<open>A simulated block device\<close>

text \<open>
  A small kernel to run the shim against: device nodes with a fixed number of bytes,
  access permissions, a write-protect switch and, for NVMe controllers, the outcome
  of Get Log Page 02h; and a descriptor table. It is not part of the repository: it
  plays the part of the mock store that the specification's testable properties are
  phrased against.
\<close>

record node =
  n_data :: "byte list"
  n_readable :: bool
  n_writable :: bool
  n_readonly :: bool
  n_smart :: "(nat \<times> byte list) option"

record sim =
  nodes :: "string \<Rightarrow> node option"
  fds :: "nat \<Rightarrow> (string \<times> oflag) option"
  next_fd :: nat

text \<open>\<^verbatim>\<open>open\<close>: EFAULT for a NULL path, ENOENT for a path that names no device, EACCES
  without permission, EROFS when a write-protected device is opened for writing.\<close>

definition sim_open :: "sim \<Rightarrow> cpath \<Rightarrow> oflag \<Rightarrow> nat sysret \<times> sim" where
  "sim_open st pathname fl =
     (case pathname of
        None \<Rightarrow> (Err EFAULT, st)
      | Some p \<Rightarrow>
          (case nodes st p of
             None \<Rightarrow> (Err ENOENT, st)
           | Some nd \<Rightarrow>
               if (case fl of O_RDONLY \<Rightarrow> n_readable nd | O_WRONLY \<Rightarrow> n_writable nd)
               then
                 if fl = O_WRONLY \<and> n_readonly nd then (Err EROFS, st)
                 else (Ok (next_fd st),
                       st\<lparr>fds := (fds st)(next_fd st \<mapsto> (p, fl)),
                          next_fd := Suc (next_fd st)\<rparr>)
               else (Err EACCES, st)))"

text \<open>The node behind a descriptor, with the mode it was opened in.\<close>

definition sim_file :: "sim \<Rightarrow> int \<Rightarrow> (string \<times> oflag \<times> node) option" where
  "sim_file st fd =
     (if fd < 0 then None
      else
        case fds st (nat fd) of
          None \<Rightarrow> None
        | Some (p, fl) \<Rightarrow>
            (case nodes st p of None \<Rightarrow> None | Some nd \<Rightarrow> Some (p, fl, nd)))"

text \<open>\<^verbatim>\<open>pread\<close>: the bytes from the offset to the end of the device, at most \<open>count\<close>.\<close>

definition sim_pread :: "sim \<Rightarrow> int \<Rightarrow> nat \<Rightarrow> int \<Rightarrow> byte list sysret \<times> sim" where
  "sim_pread st fd count offset =
     (case sim_file st fd of
        None \<Rightarrow> (Err EBADF, st)
      | Some (p, fl, nd) \<Rightarrow>
          if fl = O_WRONLY then (Err EBADF, st)
          else if offset < 0 then (Err EINVAL, st)
          else (Ok (take count (drop (nat offset) (n_data nd))), st))"

text \<open>\<^verbatim>\<open>pwrite\<close>: a block device does not grow; a write that starts at or past its end
  fails with ENOSPC, one that crosses it is cut short.\<close>

definition sim_pwrite :: "sim \<Rightarrow> int \<Rightarrow> byte list \<Rightarrow> int \<Rightarrow> nat sysret \<times> sim" where
  "sim_pwrite st fd bytes offset =
     (case sim_file st fd of
        None \<Rightarrow> (Err EBADF, st)
      | Some (p, fl, nd) \<Rightarrow>
          if fl = O_RDONLY then (Err EBADF, st)
          else if offset < 0 then (Err EINVAL, st)
          else if length (n_data nd) \<le> nat offset then (Err ENOSPC, st)
          else
            let n = min (length bytes) (length (n_data nd) - nat offset);
                d = take (nat offset) (n_data nd) @ take n bytes
                      @ drop (nat offset + n) (n_data nd)
            in (Ok n, st\<lparr>nodes := (nodes st)(p \<mapsto> nd\<lparr>n_data := d\<rparr>)\<rparr>))"

text \<open>The admin ioctl: ENOTTY on a node that is no NVMe controller; otherwise the
  controller's completion status, with the log page when the status is 0.\<close>

definition sim_admin :: "sim \<Rightarrow> int \<Rightarrow> nvme_admin_cmd \<Rightarrow> (nat \<times> byte list) sysret \<times> sim" where
  "sim_admin st fd cmd =
     (case sim_file st fd of
        None \<Rightarrow> (Err EBADF, st)
      | Some (p, fl, nd) \<Rightarrow>
          (case n_smart nd of
             None \<Rightarrow> (Err ENOTTY, st)
           | Some (status, page) \<Rightarrow>
               (Ok (status, if status = 0 then page else []), st)))"

definition sim_close :: "sim \<Rightarrow> int \<Rightarrow> unit sysret \<times> sim" where
  "sim_close st fd =
     (if fd < 0 then (Err EBADF, st)
      else
        case fds st (nat fd) of
          None \<Rightarrow> (Err EBADF, st)
        | Some _ \<Rightarrow> (Ok (), st\<lparr>fds := (fds st)(nat fd := None)\<rparr>))"

definition sim_kernel :: "sim kernel" where
  "sim_kernel =
     \<lparr>k_open = sim_open, k_pread = sim_pread, k_pwrite = sim_pwrite,
      k_admin = sim_admin, k_close = sim_close\<rparr>"

text \<open>The bytes of the buffer of \<open>n\<close> bytes at \<open>buf\<close> after a call.\<close>

definition buffer_after :: "int \<times> 's sys \<Rightarrow> ptr \<Rightarrow> 64 word \<Rightarrow> byte list" where
  "buffer_after r buf n = load (umem (snd r)) buf (unat n)"

subsection \<open>Observing a call\<close>

text \<open>The system calls made during a call that started in state \<open>s\<close> and returned
  \<open>r\<close>.\<close>

definition calls_made :: "'s sys \<Rightarrow> int \<times> 's sys \<Rightarrow> syscall list" where
  "calls_made s r = drop (length (trace s)) (trace (snd r))"

text \<open>The offset argument of a positioned read or write.\<close>

fun xfer_offset :: "syscall \<Rightarrow> int option" where
  "xfer_offset (SysPread fd buf n off) = Some off"
| "xfer_offset (SysPwrite fd buf n off) = Some off"
| "xfer_offset (SysOpen p fl) = None"
| "xfer_offset (SysIoctlAdmin fd cmd) = None"
| "xfer_offset (SysClose fd) = None"

definition offsets_passed :: "syscall list \<Rightarrow> int list" where
  "offsets_passed cs = List.map_filter xfer_offset cs"

text \<open>The command argument of an admin ioctl.\<close>

fun admin_cmd_of :: "syscall \<Rightarrow> nvme_admin_cmd option" where
  "admin_cmd_of (SysIoctlAdmin fd cmd) = Some cmd"
| "admin_cmd_of (SysOpen p fl) = None"
| "admin_cmd_of (SysPread fd buf n off) = None"
| "admin_cmd_of (SysPwrite fd buf n off) = None"
| "admin_cmd_of (SysClose fd) = None"

definition admin_cmds :: "syscall list \<Rightarrow> nvme_admin_cmd list" where
  "admin_cmds cs = List.map_filter admin_cmd_of cs"

subsection \<open>A concrete machine\<close>

text \<open>
  Four device nodes: a namespace of eleven 4096-byte blocks, the last one filled
  with 0xAB; a write-protected namespace; a controller that answers Get Log Page
  with 40 bytes; and a controller that fails the command with status 0x4002
  (Invalid Field in Command, do not retry).
\<close>

definition blk_node :: node where
  "blk_node =
     \<lparr>n_data = replicate 40960 0x00 @ replicate 4096 0xAB,
      n_readable = True, n_writable = True, n_readonly = False, n_smart = None\<rparr>"

definition ro_node :: node where
  "ro_node =
     \<lparr>n_data = replicate 4096 0x11,
      n_readable = True, n_writable = True, n_readonly = True, n_smart = None\<rparr>"

definition ctrl_node :: node where
  "ctrl_node =
     \<lparr>n_data = [], n_readable = True, n_writable = True, n_readonly = False,
      n_smart = Some (0, replicate 40 0x5A)\<rparr>"

definition bad_ctrl_node :: node where
  "bad_ctrl_node =
     \<lparr>n_data = [], n_readable = True, n_writable = True, n_readonly = False,
      n_smart = Some (0x4002, [])\<rparr>"

definition sim0 :: sim where
  "sim0 =
     \<lparr>nodes = [''/dev/nvme0n1'' \<mapsto> blk_node, ''/dev/nvme0n2'' \<mapsto> ro_node,
               ''/dev/nvme0'' \<mapsto> ctrl_node, ''/dev/nvme1'' \<mapsto> bad_ctrl_node],
      fds = Map.empty, next_fd = 3\<rparr>"

definition s0 :: "sim sys" where
  "s0 = \<lparr>kst = sim0, umem = (\<lambda>_. 0), errno = 0, trace = []\<rparr>"

subsection \<open>The layout of the SMART record\<close>











text \<open>
  A log page that holds the ten fields contiguously: no warning, 300 K (0x012C, low
  byte first), 100 percent spare, threshold 10, 3 percent used, then the counters;
  two further bytes of the page follow. And a machine with a controller that
  answers Get Log Page with it.
\<close>

definition packed_page :: "byte list" where
  "packed_page =
     [0x00] @ [0x2C, 0x01] @ [0x64] @ [0x0A] @ [0x03]
     @ (0x10 # replicate 7 0x00) @ (0x20 # replicate 7 0x00) @ (0x30 # replicate 7 0x00)
     @ [0x04, 0x00, 0x00, 0x00] @ [0x05, 0x00, 0x00, 0x00]
     @ [0x00, 0x00]"

definition packed_ctrl_node :: node where
  "packed_ctrl_node =
     \<lparr>n_data = [], n_readable = True, n_writable = True, n_readonly = False,
      n_smart = Some (0, packed_page)\<rparr>"

definition s1 :: "sim sys" where
  "s1 =
     \<lparr>kst = \<lparr>nodes = [''/dev/nvme2'' \<mapsto> packed_ctrl_node], fds = Map.empty, next_fd = 3\<rparr>,
      umem = (\<lambda>_. 0), errno = 0, trace = []\<rparr>"

section \<open>Properties\<close>

lemmas errno_defs =
  ENOENT_def EIO_def EBADF_def EACCES_def EFAULT_def EINVAL_def ENOTTY_def ENOSPC_def
  EROFS_def

lemmas sys_defs =
  sys_open_def sys_pread_def sys_pwrite_def sys_ioctl_admin_def sys_close_def

lemmas sim_defs =
  sim_kernel_def sim_open_def sim_file_def sim_pread_def sim_pwrite_def sim_admin_def
  sim_close_def

lemmas machine_defs =
  s0_def sim0_def blk_node_def ro_node_def ctrl_node_def bad_ctrl_node_def

subsection \<open>Words and memory\<close>

lemma sint_mult_exact:
  fixes lba bs :: "64 word"
  assumes "unat lba * unat bs < 2 ^ 63"
  shows "sint (lba * bs) = int (unat lba) * int (unat bs)"
proof -
  have "unat lba * unat bs < 2 ^ 64"
    using assms by simp
  then have u: "unat (lba * bs) = unat lba * unat bs"
    by (simp add: unat_word_ariths)
  have ui: "uint (lba * bs) = int (unat lba * unat bs)"
    unfolding u [symmetric] by (rule uint_nat)
  have "int (unat lba * unat bs) < int (2 ^ 63)"
    using assms by (simp only: of_nat_less_iff)
  then have "uint (lba * bs) < 2 ^ 63"
    unfolding ui by simp
  moreover have "- (2 ^ 63) \<le> uint (lba * bs)"
    by (rule order_trans [of _ 0]) simp_all
  ultimately have "signed_take_bit 63 (uint (lba * bs)) = uint (lba * bs)"
    by (rule signed_take_bit_int_eq_self [rotated])
  then have "sint (lba * bs) = uint (lba * bs)"
    by (simp add: sint_uint)
  then show ?thesis
    unfolding ui by simp
qed

lemma unat_of_nat_64:
  assumes "i < 2 ^ 64"
  shows "unat (of_nat i :: 64 word) = i"
  using assms by (simp add: unat_of_nat)

lemma length_load [simp]: "length (load m a n) = n"
  by (simp add: load_def)

lemma load_store:
  assumes "length xs \<le> 2 ^ 64"
  shows "load (store m a xs) a (length xs) = xs"
proof (rule nth_equalityI)
  show "length (load (store m a xs) a (length xs)) = length xs"
    by (simp add: load_def)
next
  fix i
  assume "i < length (load (store m a xs) a (length xs))"
  then have i: "i < length xs"
    by (simp add: load_def)
  with assms have "i < 2 ^ 64"
    by simp
  then have "unat (of_nat i :: 64 word) = i"
    by (rule unat_of_nat_64)
  then show "load (store m a xs) a (length xs) ! i = xs ! i"
    using i by (simp add: load_def store_def)
qed

subsection \<open>What a system call leaves behind\<close>

lemma sys_open_simps [simp]:
  "fst (sys_open k p fl s) = (case fst (k_open k (kst s) p fl) of Ok fd \<Rightarrow> int fd | Err e \<Rightarrow> - 1)"
  "kst (snd (sys_open k p fl s)) = snd (k_open k (kst s) p fl)"
  "errno (snd (sys_open k p fl s)) =
     (case fst (k_open k (kst s) p fl) of Ok fd \<Rightarrow> errno s | Err e \<Rightarrow> e)"
  "umem (snd (sys_open k p fl s)) = umem s"
  "trace (snd (sys_open k p fl s)) = trace s @ [SysOpen p fl]"
  by (simp_all add: sys_open_def split: prod.splits sysret.splits)

lemma sys_pread_simps [simp]:
  "fst (sys_pread k fd buf n off s) =
     (case fst (k_pread k (kst s) fd n off) of
        Ok bytes \<Rightarrow> int (length (take (min n SSIZE_MAX) bytes))
      | Err e \<Rightarrow> - 1)"
  "kst (snd (sys_pread k fd buf n off s)) = snd (k_pread k (kst s) fd n off)"
  "errno (snd (sys_pread k fd buf n off s)) =
     (case fst (k_pread k (kst s) fd n off) of Ok bytes \<Rightarrow> errno s | Err e \<Rightarrow> e)"
  "umem (snd (sys_pread k fd buf n off s)) =
     (case fst (k_pread k (kst s) fd n off) of
        Ok bytes \<Rightarrow> store (umem s) buf (take (min n SSIZE_MAX) bytes)
      | Err e \<Rightarrow> umem s)"
  "trace (snd (sys_pread k fd buf n off s)) = trace s @ [SysPread fd buf n off]"
  by (simp_all add: sys_pread_def Let_def split: prod.splits sysret.splits)

lemma sys_pwrite_simps [simp]:
  "fst (sys_pwrite k fd buf n off s) =
     (case fst (k_pwrite k (kst s) fd (load (umem s) buf n) off) of
        Ok m \<Rightarrow> int (min m (min n SSIZE_MAX))
      | Err e \<Rightarrow> - 1)"
  "kst (snd (sys_pwrite k fd buf n off s)) =
     snd (k_pwrite k (kst s) fd (load (umem s) buf n) off)"
  "errno (snd (sys_pwrite k fd buf n off s)) =
     (case fst (k_pwrite k (kst s) fd (load (umem s) buf n) off) of
        Ok m \<Rightarrow> errno s
      | Err e \<Rightarrow> e)"
  "umem (snd (sys_pwrite k fd buf n off s)) = umem s"
  "trace (snd (sys_pwrite k fd buf n off s)) = trace s @ [SysPwrite fd buf n off]"
  by (simp_all add: sys_pwrite_def split: prod.splits sysret.splits)

lemma sys_ioctl_admin_simps [simp]:
  "fst (sys_ioctl_admin k fd cmd s) =
     (case fst (k_admin k (kst s) fd cmd) of Ok r \<Rightarrow> int (fst r) | Err e \<Rightarrow> - 1)"
  "kst (snd (sys_ioctl_admin k fd cmd s)) = snd (k_admin k (kst s) fd cmd)"
  "errno (snd (sys_ioctl_admin k fd cmd s)) =
     (case fst (k_admin k (kst s) fd cmd) of Ok r \<Rightarrow> errno s | Err e \<Rightarrow> e)"
  "umem (snd (sys_ioctl_admin k fd cmd s)) =
     (case fst (k_admin k (kst s) fd cmd) of
        Ok r \<Rightarrow> store (umem s) (addr cmd) (take (unat (data_len cmd)) (snd r))
      | Err e \<Rightarrow> umem s)"
  "trace (snd (sys_ioctl_admin k fd cmd s)) = trace s @ [SysIoctlAdmin fd cmd]"
  by (simp_all add: sys_ioctl_admin_def split: prod.splits sysret.splits)

lemma sys_close_simps [simp]:
  "kst (snd (sys_close k fd s)) = snd (k_close k (kst s) fd)"
  "errno (snd (sys_close k fd s)) =
     (case fst (k_close k (kst s) fd) of Ok u \<Rightarrow> errno s | Err e \<Rightarrow> e)"
  "umem (snd (sys_close k fd s)) = umem s"
  "trace (snd (sys_close k fd s)) = trace s @ [SysClose fd]"
  by (simp_all add: sys_close_def split: prod.splits sysret.splits)

lemmas shim_defs =
  ochrance_nvme_read_smart_def ochrance_nvme_read_block_def ochrance_nvme_write_block_def
  open_nvme_def Let_def case_prod_beta

subsection \<open>The calls each operation makes\<close>

lemma read_block_calls:
  "calls_made s (ochrance_nvme_read_block k p lba buffer bs s) =
     (if buffer = 0 \<or> bs = 0 then []
      else case fst (k_open k (kst s) p O_RDONLY) of
             Err e \<Rightarrow> [SysOpen p O_RDONLY]
           | Ok fd \<Rightarrow> [SysOpen p O_RDONLY,
                        SysPread (int fd) buffer (unat bs) (sint (lba * bs)),
                        SysClose (int fd)])"
  by (simp add: calls_made_def shim_defs split: sysret.splits)

lemma write_block_calls:
  "calls_made s (ochrance_nvme_write_block k p lba buffer bs s) =
     (if buffer = 0 \<or> bs = 0 then []
      else case fst (k_open k (kst s) p O_WRONLY) of
             Err e \<Rightarrow> [SysOpen p O_WRONLY]
           | Ok fd \<Rightarrow> [SysOpen p O_WRONLY,
                        SysPwrite (int fd) buffer (unat bs) (sint (lba * bs)),
                        SysClose (int fd)])"
  by (simp add: calls_made_def shim_defs split: sysret.splits)

lemma read_smart_admin_cmds:
  "set (admin_cmds (calls_made s (ochrance_nvme_read_smart k p info s))) \<subseteq> {smart_cmd info}"
  by (simp add: calls_made_def shim_defs admin_cmds_def List.map_filter_simps)

lemma smart_cmd_fields:
  "opcode (smart_cmd info) = 0x02"
  "nsid (smart_cmd info) = 0xFFFFFFFF"
  "addr (smart_cmd info) = info"
  "unat (data_len (smart_cmd info)) = sizeof_smart_info"
  "take_bit 8 (cdw10 (smart_cmd info)) = 0x02"
  "unat (drop_bit 16 (cdw10 (smart_cmd info))) = sizeof_smart_info div 4 - 1"
  by (simp_all add: smart_cmd_def zero_cmd_def sizeof_smart_info_def)

lemma offsets_passed_simps [simp]:
  "offsets_passed [] = []"
  "offsets_passed (c # cs) =
     (case xfer_offset c of None \<Rightarrow> offsets_passed cs | Some off \<Rightarrow> off # offsets_passed cs)"
  by (simp_all add: offsets_passed_def split: option.splits)

lemma sim_kernel_simps [simp]:
  "k_open sim_kernel = sim_open"
  "k_pread sim_kernel = sim_pread"
  "k_pwrite sim_kernel = sim_pwrite"
  "k_admin sim_kernel = sim_admin"
  "k_close sim_kernel = sim_close"
  by (simp_all add: sim_kernel_def)

section \<open>The claims\<close>

subsection \<open>C1: the byte offset of a block\<close>

text \<open>
  C1, as amended. For every call of read_block or write_block with a non-null buffer
  and a block size above 0, the list of offsets passed to the positioned read (write)
  is empty when the open fails and otherwise holds exactly one offset: the product
  \<open>lba * block_size\<close> computed in 64 bits (wrapping at \<open>2^64\<close>) and read as a
  signed 64-bit \<^verbatim>\<open>off_t\<close>. That offset is the exact integer product whenever the
  product is below \<open>2^63\<close>; the witness runs the scenario of the specification
  (block 10 of 4096 bytes, offset 40960).
\<close>

theorem block_offset_is_wrapped_product:
  assumes "buffer \<noteq> 0" and "block_size \<noteq> 0"
  shows "offsets_passed (calls_made s (ochrance_nvme_read_block k p lba buffer block_size s)) =
           (case fst (k_open k (kst s) p O_RDONLY) of
              Ok fd \<Rightarrow> [sint (lba * block_size)] | Err e \<Rightarrow> [])
       \<and> offsets_passed (calls_made s (ochrance_nvme_write_block k p lba buffer block_size s)) =
           (case fst (k_open k (kst s) p O_WRONLY) of
              Ok fd \<Rightarrow> [sint (lba * block_size)] | Err e \<Rightarrow> [])
       \<and> (unat lba * unat block_size < 2 ^ 63 \<longrightarrow>
            sint (lba * block_size) = int (unat lba) * int (unat block_size))"
  using assms
  by (simp add: read_block_calls write_block_calls sint_mult_exact split: sysret.splits)

theorem block_offset_is_wrapped_product_witness:
  "(0x1000 :: ptr) \<noteq> 0 \<and> (4096 :: 64 word) \<noteq> 0
   \<and> unat (10 :: 64 word) * unat (4096 :: 64 word) < 2 ^ 63
   \<and> offsets_passed (calls_made s0
        (ochrance_nvme_read_block sim_kernel (Some ''/dev/nvme0n1'') 10 0x1000 4096 s0)) = [40960]
   \<and> offsets_passed (calls_made s0
        (ochrance_nvme_write_block sim_kernel (Some ''/dev/nvme0n1'') 10 0x1000 4096 s0)) = [40960]"
  using block_offset_is_wrapped_product
          [of "0x1000" 4096 s0 sim_kernel "Some ''/dev/nvme0n1''" 10]
  by (simp add: sim_open_def machine_defs)

text \<open>
  C1 as stated fails where the product does not fit: for block \<open>2^63\<close> of 2 bytes
  the exact product is \<open>2^64\<close>, and the offset passed to \<^verbatim>\<open>pread\<close> is 0.
\<close>

theorem block_offset_overflow_counterexample:
  "offsets_passed (calls_made s0
     (ochrance_nvme_read_block sim_kernel (Some ''/dev/nvme0n1'') (2 ^ 63) 0x1000 2 s0)) = [0]
   \<and> uint (2 ^ 63 :: 64 word) * uint (2 :: 64 word) = 2 ^ 64"
  by (simp add: read_block_calls sim_open_def machine_defs)

subsection \<open>C2: reading, writing back and reading again\<close>

lemma word_of_int_count_eq:
  fixes bs :: "64 word"
  assumes "n \<le> unat bs"
  shows "(word_of_int (int n) :: 64 word) = bs \<longleftrightarrow> n = unat bs"
proof
  assume eq: "(word_of_int (int n) :: 64 word) = bs"
  have "unat bs < 2 ^ 64"
    using unsigned_less [of bs, where 'a = nat] by simp
  with assms have "n < 2 ^ 64"
    by simp
  then have "unat (of_nat n :: 64 word) = n"
    by (rule unat_of_nat_64)
  with eq show "n = unat bs"
    by simp
next
  assume "n = unat bs"
  then show "(word_of_int (int n) :: 64 word) = bs"
    by simp
qed

text \<open>What a successful read of the simulated device says about the device.\<close>

lemma sim_read_block_ok:
  assumes "fst (ochrance_nvme_read_block sim_kernel p lba buf bs s) = 0"
  obtains path nd where
    "p = Some path" "nodes (kst s) path = Some nd"
    "buf \<noteq> 0" "bs \<noteq> 0" "n_readable nd" "0 \<le> sint (lba * bs)"
    "unat bs \<le> SSIZE_MAX"
    "nat (sint (lba * bs)) + unat bs \<le> length (n_data nd)"
proof -
  from assms have b: "buf \<noteq> 0" "bs \<noteq> 0"
    by (auto simp: shim_defs errno_defs split: if_splits)
  from assms b obtain path where p: "p = Some path"
    by (cases p) (auto simp: shim_defs errno_defs sim_open_def split: if_splits)
  from assms b p obtain nd where nd: "nodes (kst s) path = Some nd"
    by (cases "nodes (kst s) path") (auto simp: shim_defs errno_defs sim_open_def split: if_splits)
  from assms b p nd have r: "n_readable nd"
    by (auto simp: shim_defs errno_defs sim_open_def split: if_splits)
  define L where
    "L = length (take (min (unat bs) SSIZE_MAX)
                  (take (unat bs) (drop (nat (sint (lba * bs))) (n_data nd))))"
  from assms b p nd r have o: "0 \<le> sint (lba * bs)"
    by (auto simp: shim_defs errno_defs sim_open_def sim_pread_def sim_file_def sim_close_def
             split: if_splits)
  from assms b p nd r o have "(word_of_int (int L) :: 64 word) = bs"
    unfolding L_def
    by (auto simp: shim_defs errno_defs sim_open_def sim_pread_def sim_file_def sim_close_def
             split: if_splits)
  moreover have "L \<le> unat bs"
    unfolding L_def by simp
  ultimately have "L = unat bs"
    using word_of_int_count_eq [of L bs] by blast
  moreover have "0 < unat bs"
    using b by (simp add: unat_gt_0)
  ultimately have "unat bs \<le> SSIZE_MAX" "nat (sint (lba * bs)) + unat bs \<le> length (n_data nd)"
    unfolding L_def by (auto simp: min_def split: if_splits)
  with p nd b r o show thesis
    by (rule that)
qed

text \<open>Conversely, such a device is read successfully, and the buffer holds the block.\<close>

lemma sim_read_block_succeeds:
  assumes "nodes (kst s) path = Some nd" "buf \<noteq> 0" "bs \<noteq> 0" "n_readable nd"
    "0 \<le> sint (lba * bs)" "unat bs \<le> SSIZE_MAX"
    "nat (sint (lba * bs)) + unat bs \<le> length (n_data nd)"
  shows "fst (ochrance_nvme_read_block sim_kernel (Some path) lba buf bs s) = 0"
    and "buffer_after (ochrance_nvme_read_block sim_kernel (Some path) lba buf bs s) buf bs
           = take (unat bs) (drop (nat (sint (lba * bs))) (n_data nd))"
    and "nodes (kst (snd (ochrance_nvme_read_block sim_kernel (Some path) lba buf bs s)))
           = nodes (kst s)"
proof -
  let ?blk = "take (unat bs) (drop (nat (sint (lba * bs))) (n_data nd))"
  have len: "length ?blk = unat bs"
    using assms by simp
  have got: "take (min (unat bs) SSIZE_MAX) ?blk = ?blk"
    using assms by (simp add: min_def)
  have pr: "sim_pread (snd (sim_open (kst s) (Some path) O_RDONLY))
              (int (next_fd (kst s))) (unat bs) (sint (lba * bs))
            = (Ok ?blk, snd (sim_open (kst s) (Some path) O_RDONLY))"
    using assms by (simp add: sim_open_def sim_pread_def sim_file_def)
  have op: "fst (sim_open (kst s) (Some path) O_RDONLY) = Ok (next_fd (kst s))"
    using assms by (simp add: sim_open_def)
  show "fst (ochrance_nvme_read_block sim_kernel (Some path) lba buf bs s) = 0"
    using assms op pr len by (simp add: shim_defs got del: take_take length_take)
  have "unat bs \<le> 2 ^ 64"
    using unsigned_less [of bs, where 'a = nat] by simp
  then have "length ?blk \<le> 2 ^ 64"
    by (simp only: len)
  then have "load (store (umem s) buf ?blk) buf (length ?blk) = ?blk"
    by (rule load_store)
  then have "load (store (umem s) buf ?blk) buf (unat bs) = ?blk"
    by (simp only: len)
  then show "buffer_after (ochrance_nvme_read_block sim_kernel (Some path) lba buf bs s) buf bs
           = ?blk"
    using assms op pr len
    by (simp add: buffer_after_def shim_defs got del: take_take length_take)
  show "nodes (kst (snd (ochrance_nvme_read_block sim_kernel (Some path) lba buf bs s)))
           = nodes (kst s)"
    using assms op pr
    by (simp add: shim_defs sim_close_def sim_open_def split: option.splits)
qed

lemma splice_same:
  "take a xs @ take n (drop a xs) @ drop (a + n) xs = xs"
proof -
  have "take n (drop a xs) @ drop (a + n) xs = drop a xs"
    by (simp add: add.commute [of a n] flip: drop_drop)
  then show ?thesis
    by simp
qed

text \<open>Writing back the bytes a block holds leaves every device as it was.\<close>

lemma sim_write_block_same_bytes:
  assumes "nodes (kst s) path = Some nd"
    "0 \<le> sint (lba * bs)"
    "nat (sint (lba * bs)) + unat bs \<le> length (n_data nd)"
    "load (umem s) buf (unat bs) = take (unat bs) (drop (nat (sint (lba * bs))) (n_data nd))"
  shows "nodes (kst (snd (ochrance_nvme_write_block sim_kernel (Some path) lba buf bs s)))
           = nodes (kst s)"
    and "umem (snd (ochrance_nvme_write_block sim_kernel (Some path) lba buf bs s)) = umem s"
proof -
  show "umem (snd (ochrance_nvme_write_block sim_kernel (Some path) lba buf bs s)) = umem s"
    by (simp add: shim_defs)
  show "nodes (kst (snd (ochrance_nvme_write_block sim_kernel (Some path) lba buf bs s)))
           = nodes (kst s)"
  proof (cases "buf = 0 \<or> bs = 0")
    case True
    then show ?thesis
      by (auto simp: shim_defs)
  next
    case False
    then have pos: "0 < unat bs"
      by (simp add: unat_gt_0)
    show ?thesis
    proof (cases "n_writable nd \<and> \<not> n_readonly nd")
      case False
      with \<open>\<not> (buf = 0 \<or> bs = 0)\<close> assms(1) show ?thesis
        by (auto simp: shim_defs sim_open_def)
    next
      case True
      let ?st = "snd (sim_open (kst s) (Some path) O_WRONLY)"
      let ?off = "nat (sint (lba * bs))"
      from True assms(1) have op: "fst (sim_open (kst s) (Some path) O_WRONLY) = Ok (next_fd (kst s))"
        and nst: "nodes ?st = nodes (kst s)"
        by (simp_all add: sim_open_def)
      have same: "take ?off (n_data nd) @ take (unat bs) (drop ?off (n_data nd))
                    @ drop (?off + unat bs) (n_data nd) = n_data nd"
        by (rule splice_same)
      have upd: "(nodes (kst s))(path \<mapsto> nd) = nodes (kst s)"
        using assms(1) by (rule map_upd_triv)
      from True assms pos have pw: "nodes (snd (sim_pwrite ?st (int (next_fd (kst s)))
                 (load (umem s) buf (unat bs)) (sint (lba * bs)))) = nodes (kst s)"
        by (simp add: sim_pwrite_def sim_file_def sim_open_def Let_def min_def same upd)
      from \<open>\<not> (buf = 0 \<or> bs = 0)\<close> op pw show ?thesis
        by (simp add: shim_defs sim_close_def split: option.splits)
    qed
  qed
qed

text \<open>
  C2. On the simulated block device, in any state: if read_block succeeds for a path,
  block address and block size, then writing the bytes just read back to the same
  block with write_block (whether or not the device accepts the write) and reading the
  block again succeeds and fills the buffer with the same bytes as the first read.
\<close>

theorem read_write_read_roundtrip:
  assumes "fst (ochrance_nvme_read_block sim_kernel p lba buf bs s) = 0"
  shows "let r1 = ochrance_nvme_read_block sim_kernel p lba buf bs s;
             r2 = ochrance_nvme_write_block sim_kernel p lba buf bs (snd r1);
             r3 = ochrance_nvme_read_block sim_kernel p lba buf bs (snd r2)
         in fst r3 = 0 \<and> buffer_after r3 buf bs = buffer_after r1 buf bs"
proof -
  let ?r1 = "ochrance_nvme_read_block sim_kernel p lba buf bs s"
  from assms obtain path nd where c:
    "p = Some path" "nodes (kst s) path = Some nd"
    "buf \<noteq> 0" "bs \<noteq> 0" "n_readable nd" "0 \<le> sint (lba * bs)"
    "unat bs \<le> SSIZE_MAX"
    "nat (sint (lba * bs)) + unat bs \<le> length (n_data nd)"
    by (rule sim_read_block_ok)
  let ?blk = "take (unat bs) (drop (nat (sint (lba * bs))) (n_data nd))"
  let ?r2 = "ochrance_nvme_write_block sim_kernel (Some path) lba buf bs (snd ?r1)"
  let ?r3 = "ochrance_nvme_read_block sim_kernel (Some path) lba buf bs (snd ?r2)"
  from c have b1: "buffer_after ?r1 buf bs = ?blk"
    and n1: "nodes (kst (snd ?r1)) path = Some nd"
    using sim_read_block_succeeds [of s path nd buf bs lba] by simp_all
  from b1 have "load (umem (snd ?r1)) buf (unat bs) = ?blk"
    by (simp add: buffer_after_def)
  with n1 c have "nodes (kst (snd ?r2)) = nodes (kst (snd ?r1))"
    using sim_write_block_same_bytes(1) [of "snd ?r1" path nd lba bs buf] by simp
  with n1 have n2: "nodes (kst (snd ?r2)) path = Some nd"
    by simp
  with c have "fst ?r3 = 0" "buffer_after ?r3 buf bs = ?blk"
    using sim_read_block_succeeds [of "snd ?r2" path nd buf bs lba] by simp_all
  with b1 c(1) show ?thesis
    by (simp add: Let_def)
qed

theorem read_write_read_roundtrip_witness:
  "fst (ochrance_nvme_read_block sim_kernel (Some ''/dev/nvme0n1'') 10 0x1000 4096 s0) = 0
   \<and> buffer_after
         (ochrance_nvme_read_block sim_kernel (Some ''/dev/nvme0n1'') 10 0x1000 4096 s0)
         0x1000 4096 = replicate 4096 0xAB
   \<and> fst (ochrance_nvme_read_block sim_kernel (Some ''/dev/nvme0n1'') 10 0x1000 4096
        (snd (ochrance_nvme_write_block sim_kernel (Some ''/dev/nvme0n1'') 10 0x1000 4096
          (snd (ochrance_nvme_read_block sim_kernel (Some ''/dev/nvme0n1'') 10 0x1000 4096
             s0))))) = 0
   \<and> buffer_after
         (ochrance_nvme_read_block sim_kernel (Some ''/dev/nvme0n1'') 10 0x1000 4096
           (snd (ochrance_nvme_write_block sim_kernel (Some ''/dev/nvme0n1'') 10 0x1000 4096
             (snd (ochrance_nvme_read_block sim_kernel (Some ''/dev/nvme0n1'') 10 0x1000 4096
                s0)))))
         0x1000 4096 = replicate 4096 0xAB"
proof -
  have h: "fst (ochrance_nvme_read_block sim_kernel (Some ''/dev/nvme0n1'') 10 0x1000 4096 s0) = 0"
    and b: "buffer_after
              (ochrance_nvme_read_block sim_kernel (Some ''/dev/nvme0n1'') 10 0x1000 4096 s0)
              0x1000 4096 = replicate 4096 0xAB"
    using sim_read_block_succeeds [of s0 "''/dev/nvme0n1''" blk_node "0x1000" 4096 10]
    by (simp_all add: machine_defs SSIZE_MAX_def)
  from read_write_read_roundtrip [OF h] h b show ?thesis
    by (simp add: Let_def)
qed

subsection \<open>C3: a failed admin command\<close>

text \<open>When the driver itself fails the ioctl, read_smart returns the negated errno:
  that of the ioctl, or that of \<^verbatim>\<open>close\<close> when closing the descriptor fails too.\<close>

lemma read_smart_driver_error:
  assumes "info \<noteq> 0"
    and "k_open k (kst s) (Some path) O_RDONLY = (Ok fd, ks)"
    and "k_admin k ks (int fd) (smart_cmd info) = (Err e, ks')"
    and "0 < e"
  shows "fst (k_close k ks' (int fd)) = Ok () \<Longrightarrow>
           fst (ochrance_nvme_read_smart k (Some path) info s) = - e"
    and "fst (k_close k ks' (int fd)) = Err e' \<Longrightarrow>
           fst (ochrance_nvme_read_smart k (Some path) info s) = - e'"
  using assms by (simp_all add: shim_defs)

text \<open>
  C3 fails on the code. The controller of \<^verbatim>\<open>/dev/nvme1\<close> fails Get Log Page with
  status 0x4002; the ioctl hands that positive status back, read_smart tests only
  for a negative result, and the call returns 0, the code for success.
\<close>

theorem failed_log_page_reported_as_success:
  "fst (sim_admin (snd (sim_open sim0 (Some ''/dev/nvme1'') O_RDONLY)) 3 (smart_cmd 0x2000))
     = Ok (0x4002, [])
   \<and> calls_made s0 (ochrance_nvme_read_smart sim_kernel (Some ''/dev/nvme1'') 0x2000 s0)
       = [SysOpen (Some ''/dev/nvme1'') O_RDONLY, SysIoctlAdmin 3 (smart_cmd 0x2000), SysClose 3]
   \<and> fst (ochrance_nvme_read_smart sim_kernel (Some ''/dev/nvme1'') 0x2000 s0) = 0"
  by (simp add: shim_defs calls_made_def sim_open_def sim_admin_def sim_file_def sim_close_def
        machine_defs errno_defs)

subsection \<open>C4: the layout of the SMART record\<close>










subsection \<open>C5: invalid arguments\<close>

text \<open>What holds: read_smart rejects a null buffer and a null path, and the block
  operations reject a null buffer and a zero block size, all before any system call.\<close>

lemma read_smart_null_info:
  "ochrance_nvme_read_smart k p 0 s = (- EINVAL, s)"
  by (simp add: shim_defs)

lemma read_smart_null_path:
  "ochrance_nvme_read_smart k None info s = (- EINVAL, s)"
  by (simp add: shim_defs errno_defs)

lemma read_block_invalid_argument:
  assumes "buffer = 0 \<or> block_size = 0"
  shows "ochrance_nvme_read_block k p lba buffer block_size s = (- EINVAL, s)"
  using assms by (auto simp: shim_defs)

lemma write_block_invalid_argument:
  assumes "buffer = 0 \<or> block_size = 0"
  shows "ochrance_nvme_write_block k p lba buffer block_size s = (- EINVAL, s)"
  using assms by (auto simp: shim_defs)

lemma block_io_null_path:
  assumes "buffer \<noteq> 0" and "block_size \<noteq> 0"
    and "fst (k_open k (kst s) None fl) = Err e"
  shows "fl = O_RDONLY \<Longrightarrow> fst (ochrance_nvme_read_block k None lba buffer block_size s) = - e"
    and "fl = O_WRONLY \<Longrightarrow> fst (ochrance_nvme_write_block k None lba buffer block_size s) = - e"
  using assms by (simp_all add: shim_defs)

text \<open>
  C5 fails on the code for a null device path given to read_block or write_block:
  neither goes through \<open>open_nvme\<close>, the path reaches \<^verbatim>\<open>open\<close> as it is, and the
  result is the errno of that call (EFAULT on the simulated kernel, as on Linux),
  where read_smart returns \<open>- EINVAL\<close>.
\<close>

theorem null_path_block_io_is_bad_address:
  "fst (ochrance_nvme_read_block sim_kernel None 0 0x1000 4096 s0) = - EFAULT
   \<and> fst (ochrance_nvme_write_block sim_kernel None 0 0x1000 4096 s0) = - EFAULT
   \<and> calls_made s0 (ochrance_nvme_read_block sim_kernel None 0 0x1000 4096 s0)
       = [SysOpen None O_RDONLY]
   \<and> fst (ochrance_nvme_read_smart sim_kernel None 0x2000 s0) = - EINVAL
   \<and> - EFAULT \<noteq> - EINVAL"
  by (simp add: shim_defs calls_made_def sim_open_def machine_defs errno_defs)

subsection \<open>C6: a short transfer is an I/O error\<close>

lemma short_count_neq:
  fixes bs :: "64 word"
  assumes "n < unat bs"
  shows "(word_of_int (int n) :: 64 word) \<noteq> bs"
proof
  assume eq: "(word_of_int (int n) :: 64 word) = bs"
  have "unat bs < 2 ^ 64"
    using unsigned_less [of bs, where 'a = nat] by simp
  with assms have "n < 2 ^ 64"
    by simp
  then have "unat (of_nat n :: 64 word) = n"
    by (rule unat_of_nat_64)
  with eq assms show False
    by simp
qed

text \<open>
  C6. In every execution of read_block in which the open succeeds and the positioned
  read delivers fewer bytes than \<open>block_size\<close>, the result is \<open>- EIO\<close>, and the
  calls made are one open, one pread and one close: the transfer is not attempted
  again, and nothing but the status is returned. The same holds for write_block
  when pwrite accepts fewer bytes than \<open>block_size\<close>.
\<close>

theorem short_transfer_is_io_failure:
  assumes "buffer \<noteq> 0" and "block_size \<noteq> 0"
  shows "(\<forall>fd ks bytes ks'.
            k_open k (kst s) p O_RDONLY = (Ok fd, ks) \<and>
            k_pread k ks (int fd) (unat block_size) (sint (lba * block_size)) = (Ok bytes, ks') \<and>
            length bytes < unat block_size \<longrightarrow>
            fst (ochrance_nvme_read_block k p lba buffer block_size s) = - EIO \<and>
            calls_made s (ochrance_nvme_read_block k p lba buffer block_size s) =
              [SysOpen p O_RDONLY,
               SysPread (int fd) buffer (unat block_size) (sint (lba * block_size)),
               SysClose (int fd)])
       \<and> (\<forall>fd ks n ks'.
            k_open k (kst s) p O_WRONLY = (Ok fd, ks) \<and>
            k_pwrite k ks (int fd) (load (umem s) buffer (unat block_size))
              (sint (lba * block_size)) = (Ok n, ks') \<and>
            n < unat block_size \<longrightarrow>
            fst (ochrance_nvme_write_block k p lba buffer block_size s) = - EIO \<and>
            calls_made s (ochrance_nvme_write_block k p lba buffer block_size s) =
              [SysOpen p O_WRONLY,
               SysPwrite (int fd) buffer (unat block_size) (sint (lba * block_size)),
               SysClose (int fd)])"
proof (intro conjI allI impI)
  fix fd ks bytes ks'
  assume h: "k_open k (kst s) p O_RDONLY = (Ok fd, ks) \<and>
            k_pread k ks (int fd) (unat block_size) (sint (lba * block_size)) = (Ok bytes, ks') \<and>
            length bytes < unat block_size"
  then have "length (take (min (unat block_size) SSIZE_MAX) bytes) < unat block_size"
    by (simp add: min_def)
  then have "(word_of_int (int (length (take (min (unat block_size) SSIZE_MAX) bytes))) :: 64 word)
               \<noteq> block_size"
    by (rule short_count_neq)
  with h assms show "fst (ochrance_nvme_read_block k p lba buffer block_size s) = - EIO"
    by (simp add: shim_defs)
  from h assms show "calls_made s (ochrance_nvme_read_block k p lba buffer block_size s) =
              [SysOpen p O_RDONLY,
               SysPread (int fd) buffer (unat block_size) (sint (lba * block_size)),
               SysClose (int fd)]"
    by (simp add: read_block_calls)
next
  fix fd ks n ks'
  assume h: "k_open k (kst s) p O_WRONLY = (Ok fd, ks) \<and>
            k_pwrite k ks (int fd) (load (umem s) buffer (unat block_size))
              (sint (lba * block_size)) = (Ok n, ks') \<and>
            n < unat block_size"
  then have "min n (min (unat block_size) SSIZE_MAX) < unat block_size"
    by (simp add: min_def)
  then have "(word_of_int (int (min n (min (unat block_size) SSIZE_MAX))) :: 64 word)
               \<noteq> block_size"
    by (rule short_count_neq)
  with h assms show "fst (ochrance_nvme_write_block k p lba buffer block_size s) = - EIO"
    by (simp add: shim_defs)
  from h assms show "calls_made s (ochrance_nvme_write_block k p lba buffer block_size s) =
              [SysOpen p O_WRONLY,
               SysPwrite (int fd) buffer (unat block_size) (sint (lba * block_size)),
               SysClose (int fd)]"
    by (simp add: write_block_calls)
qed

theorem short_transfer_is_io_failure_witness:
  "fst (sim_pread (snd (sim_open sim0 (Some ''/dev/nvme0n2'') O_RDONLY)) 3 8192 0)
     = Ok (replicate 4096 0x11)
   \<and> fst (ochrance_nvme_read_block sim_kernel (Some ''/dev/nvme0n2'') 0 0x1000 8192 s0) = - EIO
   \<and> fst (sim_pwrite (snd (sim_open sim0 (Some ''/dev/nvme0n1'') O_WRONLY)) 3
            (load (umem s0) 0x1000 8192) 40960)
     = Ok 4096
   \<and> fst (ochrance_nvme_write_block sim_kernel (Some ''/dev/nvme0n1'') 5 0x1000 8192 s0) = - EIO"
proof -
  let ?ro = "snd (sim_open sim0 (Some ''/dev/nvme0n2'') O_RDONLY)"
  let ?wo = "snd (sim_open sim0 (Some ''/dev/nvme0n1'') O_WRONLY)"
  let ?bytes = "load (umem s0) 0x1000 (unat (8192 :: 64 word))"
  have b: "(0x1000 :: ptr) \<noteq> 0" "(8192 :: 64 word) \<noteq> 0"
    by simp_all
  have r: "k_open sim_kernel (kst s0) (Some ''/dev/nvme0n2'') O_RDONLY = (Ok 3, ?ro)
           \<and> k_pread sim_kernel ?ro (int 3) (unat (8192 :: 64 word)) (sint (0 * 8192 :: 64 word))
               = (Ok (replicate 4096 0x11), ?ro)
           \<and> length (replicate 4096 (0x11 :: byte)) < unat (8192 :: 64 word)"
    by (simp add: sim_open_def sim_pread_def sim_file_def machine_defs)
  have w: "k_open sim_kernel (kst s0) (Some ''/dev/nvme0n1'') O_WRONLY = (Ok 3, ?wo)
           \<and> k_pwrite sim_kernel ?wo (int 3) ?bytes (sint (5 * 8192 :: 64 word))
               = (Ok 4096, snd (sim_pwrite ?wo (int 3) ?bytes (sint (5 * 8192 :: 64 word))))
           \<and> (4096 :: nat) < unat (8192 :: 64 word)"
    by (simp add: sim_open_def sim_pwrite_def sim_file_def machine_defs Let_def)
  have pr: "fst (sim_pread ?ro 3 8192 0) = Ok (replicate 4096 0x11)"
    by (simp add: sim_open_def sim_pread_def sim_file_def machine_defs)
  have pw: "fst (sim_pwrite ?wo 3 (load (umem s0) 0x1000 8192) 40960) = Ok 4096"
    by (simp add: sim_open_def sim_pwrite_def sim_file_def machine_defs Let_def)
  from short_transfer_is_io_failure [OF b, THEN conjunct1, rule_format, OF r]
       short_transfer_is_io_failure [OF b, THEN conjunct2, rule_format, OF w]
       pr pw
  show ?thesis
    by simp
qed

subsection \<open>C7: the Get Log Page command\<close>

lemma admin_cmds_simps [simp]:
  "admin_cmds [] = []"
  "admin_cmds (c # cs) =
     (case admin_cmd_of c of None \<Rightarrow> admin_cmds cs | Some cmd \<Rightarrow> cmd # admin_cmds cs)"
  by (simp_all add: admin_cmds_def split: option.splits)

text \<open>
  C7. Every admin command that read_smart issues has opcode 0x02 (Get Log Page) and
  log identifier 0x02 in the low byte of \<open>cdw10\<close>, addresses all namespaces
  (\<open>nsid\<close> all ones), carries in the upper half of \<open>cdw10\<close> the size of the SmartInfo
  record in 4-byte words minus one, and transfers that many bytes to the caller's
  buffer \<open>info\<close>.
\<close>

theorem smart_command_encoding:
  "\<forall>cmd \<in> set (admin_cmds (calls_made s (ochrance_nvme_read_smart k p info s))).
     opcode cmd = 0x02
     \<and> take_bit 8 (cdw10 cmd) = 0x02
     \<and> nsid cmd = 0xFFFFFFFF
     \<and> unat (drop_bit 16 (cdw10 cmd)) = sizeof_smart_info div 4 - 1
     \<and> unat (data_len cmd) = sizeof_smart_info
     \<and> addr cmd = info"
  using read_smart_admin_cmds [of s k p info] smart_cmd_fields [of info]
  by auto

theorem smart_command_encoding_witness:
  "admin_cmds (calls_made s0 (ochrance_nvme_read_smart sim_kernel (Some ''/dev/nvme0'') 0x2000 s0))
     = [smart_cmd 0x2000]
   \<and> opcode (smart_cmd 0x2000) = 0x02
   \<and> cdw10 (smart_cmd 0x2000) = 0x00090002
   \<and> nsid (smart_cmd 0x2000) = 0xFFFFFFFF
   \<and> data_len (smart_cmd 0x2000) = 40
   \<and> addr (smart_cmd 0x2000) = 0x2000"
proof -
  have c: "admin_cmds (calls_made s0
             (ochrance_nvme_read_smart sim_kernel (Some ''/dev/nvme0'') 0x2000 s0))
           = [smart_cmd 0x2000]"
    by (simp add: calls_made_def shim_defs sim_open_def machine_defs)
  have "cdw10 (smart_cmd 0x2000) = 0x00090002" "data_len (smart_cmd 0x2000) = 40"
    by (simp_all add: smart_cmd_def zero_cmd_def sizeof_smart_info_def)
  with c smart_command_encoding [of s0 sim_kernel "Some ''/dev/nvme0''" "0x2000"]
  show ?thesis
    by simp
qed

subsection \<open>C8: writing to a read-only target\<close>

text \<open>
  C8, as amended. For every call of write_block with a non-null buffer and a block
  size above 0 against a target that refuses the write as read-only, the result is
  \<open>- EROFS\<close>, which differs from \<open>- EIO\<close>. The target refuses either the open
  for writing with EROFS, or the positioned write itself with EROFS; in the second
  case the descriptor is then closed without error.
\<close>

theorem write_to_read_only_target:
  assumes "buffer \<noteq> 0" and "block_size \<noteq> 0"
    and "fst (k_open k (kst s) p O_WRONLY) = Err EROFS
         \<or> (\<exists>fd ks ks'.
               k_open k (kst s) p O_WRONLY = (Ok fd, ks)
               \<and> k_pwrite k ks (int fd) (load (umem s) buffer (unat block_size))
                     (sint (lba * block_size)) = (Err EROFS, ks')
               \<and> fst (k_close k ks' (int fd)) = Ok ())"
  shows "fst (ochrance_nvme_write_block k p lba buffer block_size s) = - EROFS
         \<and> - EROFS \<noteq> - EIO"
  using assms by (auto simp: shim_defs errno_defs)

theorem write_to_read_only_target_witness:
  "(0x1000 :: ptr) \<noteq> 0 \<and> (4096 :: 64 word) \<noteq> 0
   \<and> fst (k_open sim_kernel (kst s0) (Some ''/dev/nvme0n2'') O_WRONLY) = Err EROFS
   \<and> fst (ochrance_nvme_write_block sim_kernel (Some ''/dev/nvme0n2'') 0 0x1000 4096 s0) = - 30"
proof -
  have h: "fst (k_open sim_kernel (kst s0) (Some ''/dev/nvme0n2'') O_WRONLY) = Err EROFS"
    by (simp add: sim_open_def machine_defs)
  have b: "(0x1000 :: ptr) \<noteq> 0" "(4096 :: 64 word) \<noteq> 0"
    by simp_all
  from write_to_read_only_target [OF b disjI1, OF h, of 0] h show ?thesis
    by (simp add: errno_defs)
qed

text \<open>
  C8 as stated fails for a call with a zero block size (or a null buffer) against a
  write-protected device: the arguments are checked first and the result is
  \<open>- EINVAL\<close>.
\<close>

theorem write_to_read_only_target_counterexample:
  "fst (k_open sim_kernel (kst s0) (Some ''/dev/nvme0n2'') O_WRONLY) = Err EROFS
   \<and> fst (ochrance_nvme_write_block sim_kernel (Some ''/dev/nvme0n2'') 0 0x1000 0 s0) = - EINVAL
   \<and> - EINVAL \<noteq> - EROFS"
  by (simp add: shim_defs sim_open_def machine_defs errno_defs)

subsection \<open>C9: a device that does not exist\<close>

text \<open>
  C9, as amended. For every call with a path that names no device (every open of it
  fails with ENOENT), a non-null output buffer and, for the block operations, a block
  size above 0, each of read_smart, read_block and write_block returns \<open>- ENOENT\<close>
  and leaves the caller's memory as it was.
\<close>

theorem missing_device_is_not_found:
  assumes "\<forall>fl. fst (k_open k (kst s) (Some path) fl) = Err ENOENT"
    and "info \<noteq> 0" and "buffer \<noteq> 0" and "block_size \<noteq> 0"
  shows "fst (ochrance_nvme_read_smart k (Some path) info s) = - ENOENT
       \<and> umem (snd (ochrance_nvme_read_smart k (Some path) info s)) = umem s
       \<and> fst (ochrance_nvme_read_block k (Some path) lba buffer block_size s) = - ENOENT
       \<and> umem (snd (ochrance_nvme_read_block k (Some path) lba buffer block_size s)) = umem s
       \<and> fst (ochrance_nvme_write_block k (Some path) lba buffer block_size s) = - ENOENT
       \<and> umem (snd (ochrance_nvme_write_block k (Some path) lba buffer block_size s)) = umem s"
  using assms by (simp add: shim_defs errno_defs)

theorem missing_device_is_not_found_witness:
  "(\<forall>fl. fst (k_open sim_kernel (kst s0) (Some ''/dev/nvme9'') fl) = Err ENOENT)
   \<and> (0x2000 :: ptr) \<noteq> 0 \<and> (0x1000 :: ptr) \<noteq> 0 \<and> (4096 :: 64 word) \<noteq> 0
   \<and> fst (ochrance_nvme_read_smart sim_kernel (Some ''/dev/nvme9'') 0x2000 s0) = - 2
   \<and> fst (ochrance_nvme_read_block sim_kernel (Some ''/dev/nvme9'') 7 0x1000 4096 s0) = - 2
   \<and> fst (ochrance_nvme_write_block sim_kernel (Some ''/dev/nvme9'') 7 0x1000 4096 s0) = - 2"
proof -
  have h: "\<forall>fl. fst (k_open sim_kernel (kst s0) (Some ''/dev/nvme9'') fl) = Err ENOENT"
    by (simp add: sim_open_def machine_defs)
  from missing_device_is_not_found [OF h, of "0x2000" "0x1000" 4096 7] h
  show ?thesis
    by (simp add: errno_defs)
qed

text \<open>
  C9 as stated fails for a call with a zero block size (or a null buffer): the
  arguments are checked before the path is looked at, and the result is \<open>- EINVAL\<close>.
\<close>

theorem missing_device_invalid_argument_counterexample:
  "fst (k_open sim_kernel (kst s0) (Some ''/dev/nvme9'') O_RDONLY) = Err ENOENT
   \<and> fst (ochrance_nvme_read_block sim_kernel (Some ''/dev/nvme9'') 7 0x1000 0 s0) = - EINVAL
   \<and> - EINVAL \<noteq> - ENOENT"
  by (simp add: shim_defs sim_open_def machine_defs errno_defs)

subsection \<open>C10: write_block only reads the caller's buffer\<close>

text \<open>
  C10. Whatever a call of write_block returns, the caller's memory, and with it the
  input buffer, is the same after the call as before.
\<close>

theorem write_block_leaves_memory:
  "umem (snd (ochrance_nvme_write_block k p lba buffer block_size s)) = umem s"
  by (simp add: shim_defs)

end
